theory Spec2Isabelle
  imports Complex_Main
begin

section \<open>JavaScript values used by the facilitator\<close>

text \<open>
  A thrown value. \<open>Error m\<close> is \<^verbatim>\<open>new Error(m)\<close>; \<open>Thrown s\<close> is any other value a
  library throws (or a promise rejects with), kept by its stringification \<open>s\<close>.
\<close>

datatype exn = Error string | Thrown string

text \<open>\<^verbatim>\<open>String(error)\<close>: an \<^verbatim>\<open>Error\<close> prints as its name, a colon and its message.\<close>

definition String_of :: "exn \<Rightarrow> string" where
  "String_of e =
     (case e of
        Error m \<Rightarrow> (if m = [] then ''Error'' else ''Error: '' @ m)
      | Thrown s \<Rightarrow> s)"

text \<open>
  JavaScript numbers, as far as the facilitator reports them: a finite value, the two
  infinities, or NaN (the sign of zero is not kept).
\<close>

datatype number = Num rat | NaN | PosInfinity | NegInfinity

definition is_digit :: "char \<Rightarrow> bool" where
  "is_digit c = (48 \<le> (of_char c :: nat) \<and> (of_char c :: nat) \<le> 57)"

definition digits_value :: "string \<Rightarrow> nat" where
  "digits_value s = foldl (\<lambda>acc c. 10 * acc + ((of_char c :: nat) - 48)) 0 s"

text \<open>
  \<^verbatim>\<open>Number(s)\<close> on a string. On a non-empty string of at most 15 decimal digits it is
  the integer the digits denote (exactly representable). On every other string (signs,
  fractions, exponents, blanks, other radixes, longer digit strings, garbage) the
  conversion is the runtime's, taken as the parameter \<open>other\<close>.
\<close>

definition Number :: "(string \<Rightarrow> number) \<Rightarrow> string \<Rightarrow> number" where
  "Number other s =
     (if s \<noteq> [] \<and> length s \<le> 15 \<and> list_all is_digit s
      then Num (of_nat (digits_value s))
      else other s)"

function string_of_nat :: "nat \<Rightarrow> string" where
  "string_of_nat n =
     (if n < 10 then [''0123456789'' ! n]
      else string_of_nat (n div 10) @ [''0123456789'' ! (n mod 10)])"
  by pat_completeness auto
termination
  by (relation "measure (\<lambda>n. n)") auto

declare string_of_nat.simps [simp del]

text \<open>
  \<^verbatim>\<open>amount.toString()\<close> for an integer-valued number below \<open>10^21\<close> in absolute value
  (above, JavaScript switches to exponent notation; the facilitator only passes 1).
\<close>

definition toString :: "int \<Rightarrow> string" where
  "toString i = (if i < 0 then ''-'' @ string_of_nat (nat (- i)) else string_of_nat (nat i))"

text \<open>Truthiness of a \<^verbatim>\<open>string | undefined\<close>: undefined and the empty string are falsy.\<close>

definition truthy :: "string option \<Rightarrow> bool" where
  "truthy v = (case v of None \<Rightarrow> False | Some s \<Rightarrow> s \<noteq> [])"

text \<open>\<^verbatim>\<open>v || d\<close> on a \<^verbatim>\<open>string | undefined\<close>.\<close>

definition or_default :: "string option \<Rightarrow> string \<Rightarrow> string" where
  "or_default v d = (case v of None \<Rightarrow> d | Some s \<Rightarrow> (if s = [] then d else s))"

section \<open>Configuration (\<^verbatim>\<open>process.env\<close>)\<close>

type_synonym process_env = "string \<rightharpoonup> string"

definition EVM_PRIVATE_KEY :: "process_env \<Rightarrow> string" where
  "EVM_PRIVATE_KEY penv = or_default (penv ''EVM_PRIVATE_KEY'') ''''"

definition EVM_RPC_URL :: "process_env \<Rightarrow> string" where
  "EVM_RPC_URL penv = or_default (penv ''EVM_RPC_URL'') ''https://sepolia.base.org''"

definition SVM_PRIVATE_KEY :: "process_env \<Rightarrow> string" where
  "SVM_PRIVATE_KEY penv = or_default (penv ''SVM_PRIVATE_KEY'') ''''"

definition SVM_RPC_URL :: "process_env \<Rightarrow> string" where
  "SVM_RPC_URL penv = or_default (penv ''SVM_RPC_URL'') ''''"

datatype startup = Exit nat | Serving

text \<open>Lines 29-32: the process exits with status 1 when both private keys are absent.\<close>

definition startup_check :: "process_env \<Rightarrow> startup" where
  "startup_check penv =
     (if EVM_PRIVATE_KEY penv = [] \<and> SVM_PRIVATE_KEY penv = [] then Exit 1 else Serving)"

record x402_config =
  svmConfig_rpcUrl :: string

definition x402Config :: "process_env \<Rightarrow> x402_config option" where
  "x402Config penv =
     (if SVM_RPC_URL penv \<noteq> [] then Some \<lparr>svmConfig_rpcUrl = SVM_RPC_URL penv\<rparr> else None)"

section \<open>Data model\<close>

text \<open>
  The payment types are declared in the x402 library; they carry the fields the
  facilitator reads and the ones the specification names.
\<close>

record payment_requirements =
  scheme :: string
  network :: string
  maxAmountRequired :: string
  asset :: string
  payTo :: string

record authorization =
  auth_from :: string
  auth_to :: string
  auth_value :: string

datatype scheme_payload =
    ExactEvmPayload (evm_signature: string) (evm_authorization: authorization)
  | ExactSvmPayload (svm_transaction: string)

record payment_payload =
  x402Version :: nat
  payload_scheme :: string
  payload_network :: string
  payload :: scheme_payload

record verify_response =
  isValid :: bool
  invalidReason :: "string option"

record settle_response =
  success :: bool
  errorReason :: "string option"
  settle_transaction :: string

text \<open>Handles of the libraries' objects: opaque, told apart by an identifier.\<close>

datatype signer = Signer nat
datatype connected_client = ConnectedClient nat
datatype provider = Provider nat
datatype wallet = Wallet nat
datatype contract = Contract nat
datatype tx = Tx (hash: string)

text \<open>\<^verbatim>\<open>let client: Signer | ConnectedClient\<close>\<close>

datatype verification_client = IsConnectedClient connected_client | IsSigner signer

text \<open>The unvalidated JSON of a request body field, before the schema parses it.\<close>

type_synonym unvalidated = string

record request_body =
  body_paymentPayload :: unvalidated
  body_paymentRequirements :: unvalidated

record fee_extra =
  feePayer :: "string option"

record supported_payment_kind =
  kind_x402Version :: nat
  kind_scheme :: string
  kind_network :: string
  extra :: "fee_extra option"

record cashback =
  cb_amount :: int
  cb_txHash :: "string option"
  cb_percent :: number

datatype json_body =
    DocBody string string string string
  | VerifyBody verify_response
  | ErrorBody string
  | SettleBody (body_success: bool) (body_settlement: settle_response) (body_cashback: cashback)
  | SupportedBody (body_kinds: "supported_payment_kind list")

record response =
  status :: nat
  body :: json_body

text \<open>
  What a route handler leaves behind: a response, or an exception that escapes the
  handler (a rejected promise; no response is written by the handler).
\<close>

datatype outcome = Responded response | Uncaught exn

section \<open>The libraries and the chain, as parameters\<close>

text \<open>
  Everything imported from \<^verbatim>\<open>x402/types\<close>, \<^verbatim>\<open>x402/facilitator\<close> and \<^verbatim>\<open>ethers\<close>, and the
  number conversion of the runtime. Each fallible call answers \<open>Inl\<close> with what it
  throws, or \<open>Inr\<close> with what it returns.
\<close>

record world =
  SupportedEVMNetworks :: "string list"
  SupportedSVMNetworks :: "string list"
  PaymentRequirementsSchema_parse :: "unvalidated \<Rightarrow> exn + payment_requirements"
  PaymentPayloadSchema_parse :: "unvalidated \<Rightarrow> exn + payment_payload"
  createConnectedClient :: "string \<Rightarrow> exn + connected_client"
  createSigner :: "string \<Rightarrow> string \<Rightarrow> exn + signer"
  isSvmSignerWallet :: "signer \<Rightarrow> bool"
  signer_address :: "signer \<Rightarrow> string"
  verify :: "verification_client \<Rightarrow> payment_payload \<Rightarrow> payment_requirements
               \<Rightarrow> x402_config option \<Rightarrow> exn + verify_response"
  settle :: "signer \<Rightarrow> payment_payload \<Rightarrow> payment_requirements
               \<Rightarrow> x402_config option \<Rightarrow> exn + settle_response"
  runtime_Number :: "string \<Rightarrow> number"
  JsonRpcProvider_new :: "string \<Rightarrow> exn + provider"
  Wallet_new :: "string \<Rightarrow> provider \<Rightarrow> exn + wallet"
  Contract_new :: "string option \<Rightarrow> wallet \<Rightarrow> exn + contract"
  token_decimals :: "contract \<Rightarrow> exn + nat"
  parseUnits :: "string \<Rightarrow> nat \<Rightarrow> exn + nat"
  token_transfer :: "contract \<Rightarrow> string \<Rightarrow> nat \<Rightarrow> exn + tx"
  tx_wait :: "tx \<Rightarrow> exn + unit"

section \<open>Effects: results with a log of calls\<close>

text \<open>
  The calls whose order matters: the constructors of clients and signers, verify and
  settle, the entry of \<^verbatim>\<open>sendEvmCashback\<close>, and each step it takes on the chain.
\<close>

datatype call =
    CreateConnectedClient string
  | CreateSigner string string
  | Verify verification_client payment_payload payment_requirements "x402_config option"
  | Settle signer payment_payload payment_requirements "x402_config option"
  | SendEvmCashback string "string option" int
  | NewJsonRpcProvider string
  | NewWallet string provider
  | NewContract "string option" wallet
  | TokenDecimals contract
  | TokenTransfer contract string nat
  | TxWait tx

datatype event = Call call | Returned call | Threw call exn

text \<open>A computation: what it throws or returns, and the events it logged, in order.\<close>

type_synonym 'a io = "(exn + 'a) \<times> event list"

definition returns :: "'a \<Rightarrow> 'a io" where
  "returns x = (Inr x, [])"

definition throw :: "exn \<Rightarrow> 'a io" where
  "throw e = (Inl e, [])"

text \<open>Sequencing (\<^verbatim>\<open>await m\<close>, then go on): an exception of \<open>m\<close> skips the rest.\<close>

definition bind_io :: "'a io \<Rightarrow> ('a \<Rightarrow> 'b io) \<Rightarrow> 'b io" where
  "bind_io m f =
     (case m of
        (Inl e, t) \<Rightarrow> (Inl e, t)
      | (Inr x, t) \<Rightarrow> (case f x of (r, t') \<Rightarrow> (r, t @ t')))"

text \<open>\<^verbatim>\<open>m.catch(h)\<close>\<close>

definition catch_io :: "'a io \<Rightarrow> (exn \<Rightarrow> 'a io) \<Rightarrow> 'a io" where
  "catch_io m h =
     (case m of
        (Inl e, t) \<Rightarrow> (case h e of (r, t') \<Rightarrow> (r, t @ t'))
      | (Inr x, t) \<Rightarrow> (Inr x, t))"

text \<open>A pure library call that may throw (no event).\<close>

definition lift :: "exn + 'a \<Rightarrow> 'a io" where
  "lift r = (r, [])"

text \<open>A logged call: the call, then how it ended.\<close>

definition extern :: "call \<Rightarrow> exn + 'a \<Rightarrow> 'a io" where
  "extern c r =
     (case r of
        Inl e \<Rightarrow> (Inl e, [Call c, Threw c e])
      | Inr x \<Rightarrow> (Inr x, [Call c, Returned c]))"

definition enter :: "call \<Rightarrow> unit io" where
  "enter c = (Inr (), [Call c])"

section \<open>The cashback transfer (lines 55-74)\<close>

definition sendEvmCashback :: "world \<Rightarrow> process_env \<Rightarrow> string \<Rightarrow> string option \<Rightarrow> int \<Rightarrow> string io" where
  "sendEvmCashback w penv to tokenAddress amount =
     bind_io (enter (SendEvmCashback to tokenAddress amount)) (\<lambda>_.
     bind_io (extern (NewJsonRpcProvider (EVM_RPC_URL penv))
                (JsonRpcProvider_new w (EVM_RPC_URL penv))) (\<lambda>provider.
     bind_io (extern (NewWallet (EVM_PRIVATE_KEY penv) provider)
                (Wallet_new w (EVM_PRIVATE_KEY penv) provider)) (\<lambda>wallet.
     bind_io (extern (NewContract tokenAddress wallet)
                (Contract_new w tokenAddress wallet)) (\<lambda>token.
     bind_io (catch_io (extern (TokenDecimals token) (token_decimals w token))
                (\<lambda>_. returns 18)) (\<lambda>decimals.
     bind_io (lift (parseUnits w (toString amount) decimals)) (\<lambda>decimalAmount.
     bind_io (extern (TokenTransfer token to decimalAmount)
                (token_transfer w token to decimalAmount)) (\<lambda>tx.
     bind_io (extern (TxWait tx) (tx_wait w tx)) (\<lambda>receipt.
     returns (hash tx)))))))))"

section \<open>Route handlers\<close>

text \<open>
  A handler is a function of the libraries, the environment and the request; it gives the
  response and the log of calls. Console output is left out. The request body has been
  parsed by the JSON middleware (line 79); a field that the body lacks is an unvalidated
  value that the schema rejects.
\<close>

record request =
  req_body :: request_body

definition ok_json :: "json_body \<Rightarrow> response" where
  "ok_json b = \<lparr>status = 200, body = b\<rparr>"

definition get_verify :: "outcome \<times> event list" where
  "get_verify =
     (Responded (ok_json (DocBody ''/verify'' ''POST to verify x402 payments''
        ''PaymentPayload'' ''PaymentRequirements'')), [])"

definition get_settle :: "outcome \<times> event list" where
  "get_settle =
     (Responded (ok_json (DocBody ''/settle'' ''POST to settle x402 payments''
        ''PaymentPayload'' ''PaymentRequirements'')), [])"

text \<open>Lines 110-117: the client or signer of \<^verbatim>\<open>POST /verify\<close>.\<close>

definition verify_client :: "world \<Rightarrow> process_env \<Rightarrow> payment_requirements \<Rightarrow> verification_client io" where
  "verify_client w penv paymentRequirements =
     (if network paymentRequirements \<in> set (SupportedEVMNetworks w) then
        bind_io (extern (CreateConnectedClient (network paymentRequirements))
                   (createConnectedClient w (network paymentRequirements)))
          (\<lambda>c. returns (IsConnectedClient c))
      else if network paymentRequirements \<in> set (SupportedSVMNetworks w) then
        bind_io (extern (CreateSigner (network paymentRequirements) (SVM_PRIVATE_KEY penv))
                   (createSigner w (network paymentRequirements) (SVM_PRIVATE_KEY penv)))
          (\<lambda>s. returns (IsSigner s))
      else throw (Error ''Invalid network''))"

text \<open>Lines 104-120: the body of the \<^verbatim>\<open>try\<close> of \<^verbatim>\<open>POST /verify\<close>.\<close>

definition verify_try :: "world \<Rightarrow> process_env \<Rightarrow> request \<Rightarrow> verify_response io" where
  "verify_try w penv req =
     bind_io (lift (PaymentRequirementsSchema_parse w (body_paymentRequirements (req_body req))))
       (\<lambda>paymentRequirements.
     bind_io (lift (PaymentPayloadSchema_parse w (body_paymentPayload (req_body req))))
       (\<lambda>paymentPayload.
     bind_io (verify_client w penv paymentRequirements) (\<lambda>client.
     extern (Verify client paymentPayload paymentRequirements (x402Config penv))
       (verify w client paymentPayload paymentRequirements (x402Config penv)))))"

definition post_verify :: "world \<Rightarrow> process_env \<Rightarrow> request \<Rightarrow> outcome \<times> event list" where
  "post_verify w penv req =
     (case verify_try w penv req of
        (Inr valid, t) \<Rightarrow> (Responded (ok_json (VerifyBody valid)), t)
      | (Inl error, t) \<Rightarrow>
          (Responded \<lparr>status = 400, body = ErrorBody ''Invalid request''\<rparr>, t))"

text \<open>Lines 139-168: \<^verbatim>\<open>GET /supported\<close>, which has no \<^verbatim>\<open>try\<close>.\<close>

definition supported_kinds :: "world \<Rightarrow> process_env \<Rightarrow> supported_payment_kind list io" where
  "supported_kinds w penv =
     (let kinds0 = [];
          kinds1 =
            (if EVM_PRIVATE_KEY penv \<noteq> [] then
               kinds0 @ [\<lparr>kind_x402Version = 1, kind_scheme = ''exact'',
                          kind_network = ''base-sepolia'', extra = None\<rparr>]
             else kinds0)
      in if SVM_PRIVATE_KEY penv \<noteq> [] then
           bind_io (extern (CreateSigner ''solana-devnet'' (SVM_PRIVATE_KEY penv))
                      (createSigner w ''solana-devnet'' (SVM_PRIVATE_KEY penv))) (\<lambda>signer.
           let feePayer = (if isSvmSignerWallet w signer then Some (signer_address w signer)
                           else None)
           in returns (kinds1 @ [\<lparr>kind_x402Version = 1, kind_scheme = ''exact'',
                                   kind_network = ''solana-devnet'',
                                   extra = Some \<lparr>feePayer = feePayer\<rparr>\<rparr>]))
         else returns kinds1)"

definition get_supported :: "world \<Rightarrow> process_env \<Rightarrow> outcome \<times> event list" where
  "get_supported w penv =
     (case supported_kinds w penv of
        (Inr kinds, t) \<Rightarrow> (Responded (ok_json (SupportedBody kinds)), t)
      | (Inl e, t) \<Rightarrow> (Uncaught e, t))"

text \<open>Lines 177-184: the signer of \<^verbatim>\<open>POST /settle\<close>.\<close>

definition settle_signer :: "world \<Rightarrow> process_env \<Rightarrow> payment_requirements \<Rightarrow> signer io" where
  "settle_signer w penv paymentRequirements =
     (if network paymentRequirements \<in> set (SupportedEVMNetworks w) then
        extern (CreateSigner (network paymentRequirements) (EVM_PRIVATE_KEY penv))
          (createSigner w (network paymentRequirements) (EVM_PRIVATE_KEY penv))
      else if network paymentRequirements \<in> set (SupportedSVMNetworks w) then
        extern (CreateSigner (network paymentRequirements) (SVM_PRIVATE_KEY penv))
          (createSigner w (network paymentRequirements) (SVM_PRIVATE_KEY penv))
      else throw (Error ''Invalid network''))"

text \<open>Lines 192-196: the payer, when the payload carries an authorization.\<close>

definition payer_of :: "payment_payload \<Rightarrow> string option" where
  "payer_of paymentPayload =
     (case payload paymentPayload of
        ExactEvmPayload sg auth \<Rightarrow> Some (auth_from auth)
      | ExactSvmPayload t \<Rightarrow> None)"

definition cashbackAmount :: int where
  "cashbackAmount = 1"

definition cashbackPercent :: "world \<Rightarrow> process_env \<Rightarrow> number" where
  "cashbackPercent w penv =
     Number (runtime_Number w) (or_default (penv ''CASHBACK_PERCENT'') ''2'')"

text \<open>
  Lines 201-210: the cashback step; its value is \<^verbatim>\<open>cashbackTxHash\<close>. The test
  \<^verbatim>\<open>payer && cashbackAmount > 0\<close> fails on an undefined payer and on an empty one.
\<close>

definition send_cashback :: "world \<Rightarrow> process_env \<Rightarrow> payment_requirements \<Rightarrow> string option
    \<Rightarrow> string option io" where
  "send_cashback w penv paymentRequirements payer =
     (case payer of
        None \<Rightarrow> returns None
      | Some to \<Rightarrow>
          (if to \<noteq> [] \<and> cashbackAmount > 0 then
             (if network paymentRequirements \<in> set (SupportedEVMNetworks w) then
                bind_io (sendEvmCashback w penv to (penv ''EVM_CASHBACK_TOKEN'')
                           cashbackAmount) (\<lambda>h. returns (Some h))
              else if network paymentRequirements \<in> set (SupportedSVMNetworks w) then
                returns None
              else returns None)
           else returns None))"

text \<open>Lines 172-221: the body of the \<^verbatim>\<open>try\<close> of \<^verbatim>\<open>POST /settle\<close>.\<close>

definition settle_try :: "world \<Rightarrow> process_env \<Rightarrow> request \<Rightarrow> json_body io" where
  "settle_try w penv req =
     bind_io (lift (PaymentRequirementsSchema_parse w (body_paymentRequirements (req_body req))))
       (\<lambda>paymentRequirements.
     bind_io (lift (PaymentPayloadSchema_parse w (body_paymentPayload (req_body req))))
       (\<lambda>paymentPayload.
     bind_io (settle_signer w penv paymentRequirements) (\<lambda>signer.
     bind_io (extern (Settle signer paymentPayload paymentRequirements (x402Config penv))
                (settle w signer paymentPayload paymentRequirements (x402Config penv)))
       (\<lambda>settlement.
     bind_io (send_cashback w penv paymentRequirements (payer_of paymentPayload))
       (\<lambda>cashbackTxHash.
     returns (SettleBody True settlement
       \<lparr>cb_amount = cashbackAmount, cb_txHash = cashbackTxHash,
        cb_percent = cashbackPercent w penv\<rparr>))))))"

definition post_settle :: "world \<Rightarrow> process_env \<Rightarrow> request \<Rightarrow> outcome \<times> event list" where
  "post_settle w penv req =
     (case settle_try w penv req of
        (Inr b, t) \<Rightarrow> (Responded (ok_json b), t)
      | (Inl error, t) \<Rightarrow>
          (Responded \<lparr>status = 400, body = ErrorBody (String_of error)\<rparr>, t))"

section \<open>Reading a log of calls\<close>

definition cashback_call :: "call \<Rightarrow> bool" where
  "cashback_call c =
     (case c of
        SendEvmCashback to tok amt \<Rightarrow> True
      | NewJsonRpcProvider url \<Rightarrow> True
      | NewWallet k p \<Rightarrow> True
      | NewContract a wl \<Rightarrow> True
      | TokenDecimals tok \<Rightarrow> True
      | TokenTransfer tok to v \<Rightarrow> True
      | TxWait x \<Rightarrow> True
      | _ \<Rightarrow> False)"

text \<open>An event of the cashback transfer: the entry of \<^verbatim>\<open>sendEvmCashback\<close> or any step of it.\<close>

definition cashback_event :: "event \<Rightarrow> bool" where
  "cashback_event ev =
     (case ev of Call c \<Rightarrow> cashback_call c | Returned c \<Rightarrow> cashback_call c
      | Threw c x \<Rightarrow> cashback_call c)"

definition settle_call :: "call \<Rightarrow> bool" where
  "settle_call c = (case c of Settle sg pp pr cfg \<Rightarrow> True | _ \<Rightarrow> False)"

definition settle_returned :: "event \<Rightarrow> bool" where
  "settle_returned ev = (case ev of Returned c \<Rightarrow> settle_call c | _ \<Rightarrow> False)"

definition settle_threw :: "event \<Rightarrow> bool" where
  "settle_threw ev = (case ev of Threw c x \<Rightarrow> settle_call c | _ \<Rightarrow> False)"

definition settle_called :: "event \<Rightarrow> bool" where
  "settle_called ev = (case ev of Call c \<Rightarrow> settle_call c | _ \<Rightarrow> False)"

text \<open>The log holds an invocation of \<^verbatim>\<open>sendEvmCashback\<close>.\<close>

definition transfer_attempted :: "event list \<Rightarrow> bool" where
  "transfer_attempted t =
     list_ex (\<lambda>ev. case ev of Call (SendEvmCashback to tok amt) \<Rightarrow> True | _ \<Rightarrow> False) t"

text \<open>The constructions of a client or a signer in a log, in order.\<close>

fun constructor_calls :: "event list \<Rightarrow> call list" where
  "constructor_calls [] = []"
| "constructor_calls (Call (CreateConnectedClient n) # es) =
     CreateConnectedClient n # constructor_calls es"
| "constructor_calls (Call (CreateSigner n k) # es) = CreateSigner n k # constructor_calls es"
| "constructor_calls (ev # es) = constructor_calls es"

text \<open>The clients that the calls of verify in a log were given, in order.\<close>

fun verify_clients :: "event list \<Rightarrow> verification_client list" where
  "verify_clients [] = []"
| "verify_clients (Call (Verify cl pp pr cfg) # es) = cl # verify_clients es"
| "verify_clients (ev # es) = verify_clients es"

section \<open>Stubbed libraries for concrete runs\<close>

definition stub_requirements :: "string \<Rightarrow> payment_requirements" where
  "stub_requirements net =
     \<lparr>scheme = ''exact'', network = net, maxAmountRequired = ''10000'',
      asset = ''0xA'', payTo = ''0xB''\<rparr>"

definition stub_payload :: "string \<Rightarrow> payment_payload" where
  "stub_payload j =
     \<lparr>x402Version = 1, payload_scheme = ''exact'', payload_network = ''n'',
      payload =
        (if j = ''svm'' then ExactSvmPayload ''tx''
         else ExactEvmPayload ''0xsig''
                \<lparr>auth_from = j, auth_to = ''0xB'', auth_value = ''10000''\<rparr>)\<rparr>"

definition stub_settlement :: settle_response where
  "stub_settlement = \<lparr>success = True, errorReason = None, settle_transaction = ''0xsettled''\<rparr>"

definition failed_settlement :: settle_response where
  "failed_settlement =
     \<lparr>success = False, errorReason = Some ''insufficient_funds'', settle_transaction = []\<rparr>"

text \<open>
  A stub of the libraries: the requirements parser reads the network name, the payload
  parser reads the payer (or \<open>''svm''\<close> for a payload without authorization),
  \<^verbatim>\<open>createSigner\<close> rejects an empty key as the library does, every other call succeeds,
  the token has 6 decimals.
\<close>

definition stub_world :: world where
  "stub_world =
     \<lparr>SupportedEVMNetworks = [''base-sepolia'', ''base''],
      SupportedSVMNetworks = [''solana-devnet'', ''solana''],
      PaymentRequirementsSchema_parse =
        (\<lambda>j. if j = [] then Inl (Thrown ''ZodError'') else Inr (stub_requirements j)),
      PaymentPayloadSchema_parse =
        (\<lambda>j. if j = [] then Inl (Thrown ''ZodError'') else Inr (stub_payload j)),
      createConnectedClient = (\<lambda>n. Inr (ConnectedClient 1)),
      createSigner =
        (\<lambda>n k. if k = [] then Inl (Error ''invalid private key'') else Inr (Signer 2)),
      isSvmSignerWallet = (\<lambda>s. True),
      signer_address = (\<lambda>s. ''FeePayer''),
      verify = (\<lambda>cl pp pr cfg. Inr \<lparr>isValid = True, invalidReason = None\<rparr>),
      settle = (\<lambda>sg pp pr cfg. Inr stub_settlement),
      runtime_Number = (\<lambda>s. NaN),
      JsonRpcProvider_new = (\<lambda>url. Inr (Provider 3)),
      Wallet_new = (\<lambda>k p. Inr (Wallet 4)),
      Contract_new = (\<lambda>a wl. Inr (Contract 5)),
      token_decimals = (\<lambda>tok. Inr 6),
      parseUnits = (\<lambda>s d. Inr (digits_value s * 10 ^ d)),
      token_transfer = (\<lambda>tok to v. Inr (Tx ''0xcafe'')),
      tx_wait = (\<lambda>x. Inr ())\<rparr>"

definition stub_env :: process_env where
  "stub_env = [''EVM_PRIVATE_KEY'' \<mapsto> ''0xkey'', ''SVM_PRIVATE_KEY'' \<mapsto> ''svmkey'',
               ''EVM_CASHBACK_TOKEN'' \<mapsto> ''0xtoken'']"

text \<open>Only the EVM key is configured: the service starts, with an empty SVM key.\<close>

definition evm_only_env :: process_env where
  "evm_only_env = [''EVM_PRIVATE_KEY'' \<mapsto> ''0xkey'', ''EVM_CASHBACK_TOKEN'' \<mapsto> ''0xtoken'']"

definition stub_request :: "string \<Rightarrow> string \<Rightarrow> request" where
  "stub_request net payer =
     \<lparr>req_body = \<lparr>body_paymentPayload = payer, body_paymentRequirements = net\<rparr>\<rparr>"

text \<open>Variations of the stub: one call fails, or settle reports a failed settlement.\<close>

definition reverting_world :: world where
  "reverting_world = stub_world\<lparr>token_transfer := (\<lambda>tok to v. Inl (Error ''reverted''))\<rparr>"

definition no_decimals_world :: world where
  "no_decimals_world = stub_world\<lparr>token_decimals := (\<lambda>tok. Inl (Error ''rpc down''))\<rparr>"

definition failed_settlement_world :: world where
  "failed_settlement_world = stub_world\<lparr>settle := (\<lambda>sg pp pr cfg. Inr failed_settlement)\<rparr>"

definition no_signer_world :: world where
  "no_signer_world = stub_world\<lparr>createSigner := (\<lambda>n k. Inl (Error ''bad key''))\<rparr>"

section \<open>Rules for the effects\<close>

lemma bind_io_Inl: "bind_io (Inl e, t) f = (Inl e, t)"
  by (simp add: bind_io_def)

lemma bind_io_Inr: "bind_io (Inr x, t) f = (fst (f x), t @ snd (f x))"
  by (simp add: bind_io_def split: prod.splits)

lemma bind_io_returns: "bind_io (returns x) f = f x"
  by (simp add: bind_io_def returns_def split: prod.splits)

lemma bind_io_throw: "bind_io (throw e) f = throw e"
  by (simp add: bind_io_def throw_def)

lemma bind_io_lift_Inl: "bind_io (lift (Inl e)) f = (Inl e, [])"
  by (simp add: bind_io_def lift_def)

lemma bind_io_lift_Inr: "bind_io (lift (Inr x)) f = f x"
  by (simp add: bind_io_def lift_def split: prod.splits)

lemma extern_Inl: "extern c (Inl e) = (Inl e, [Call c, Threw c e])"
  by (simp add: extern_def)

lemma extern_Inr: "extern c (Inr x) = (Inr x, [Call c, Returned c])"
  by (simp add: extern_def)

lemmas io_simps = bind_io_Inl bind_io_Inr bind_io_returns bind_io_throw bind_io_lift_Inl
  bind_io_lift_Inr extern_Inl extern_Inr

lemma bind_io_events:
  assumes "\<forall>ev\<in>set (snd m). P ev" and "\<And>x. \<forall>ev\<in>set (snd (f x)). P ev"
  shows "\<forall>ev\<in>set (snd (bind_io m f)). P ev"
proof (cases m)
  case (Pair r t)
  show ?thesis
  proof (cases r)
    case (Inl e)
    with Pair assms(1) show ?thesis by (simp add: bind_io_Inl)
  next
    case (Inr x)
    with Pair assms(1) assms(2)[of x] show ?thesis by (auto simp add: bind_io_Inr)
  qed
qed

lemma catch_io_events:
  assumes "\<forall>ev\<in>set (snd m). P ev" and "\<And>x. \<forall>ev\<in>set (snd (h x)). P ev"
  shows "\<forall>ev\<in>set (snd (catch_io m h)). P ev"
proof (cases m)
  case (Pair r t)
  show ?thesis
  proof (cases r)
    case (Inl e)
    with Pair assms(1) assms(2)[of e] show ?thesis
      by (auto simp add: catch_io_def split: prod.splits)
  next
    case (Inr x)
    with Pair assms(1) show ?thesis by (simp add: catch_io_def)
  qed
qed

lemma extern_events:
  assumes "P (Call c)" and "P (Returned c)" and "\<And>x. P (Threw c x)"
  shows "\<forall>ev\<in>set (snd (extern c r)). P ev"
  using assms by (cases r) (simp_all add: extern_def)

lemma toString_1: "toString 1 = ''1''"
  by (simp add: toString_def string_of_nat.simps)

lemma Number_2: "Number other ''2'' = Num 2"
  by (simp add: Number_def is_digit_def digits_value_def)

lemma transfer_attempted_append:
  "transfer_attempted (a @ b) = (transfer_attempted a \<or> transfer_attempted b)"
  by (simp add: transfer_attempted_def)

lemma transfer_attempted_Cons:
  "transfer_attempted (ev # t) =
     ((case ev of Call (SendEvmCashback to tok amt) \<Rightarrow> True | _ \<Rightarrow> False)
      \<or> transfer_attempted t)"
  by (simp add: transfer_attempted_def)

lemma cashback_event_not_settle:
  assumes "cashback_event ev"
  shows "\<not> settle_threw ev \<and> \<not> settle_returned ev"
proof (cases ev)
  case (Call c)
  then show ?thesis by (simp add: settle_threw_def settle_returned_def)
next
  case (Returned c)
  with assms show ?thesis
    by (cases c) (simp_all add: cashback_event_def cashback_call_def settle_threw_def
        settle_returned_def settle_call_def)
next
  case (Threw c x)
  with assms show ?thesis
    by (cases c) (simp_all add: cashback_event_def cashback_call_def settle_threw_def
        settle_returned_def settle_call_def)
qed

section \<open>The cashback transfer\<close>

lemma sendEvmCashback_events:
  "\<forall>ev\<in>set (snd (sendEvmCashback w penv to tok amt)). cashback_event ev"
  unfolding sendEvmCashback_def
  by (intro bind_io_events catch_io_events extern_events)
     (simp_all add: cashback_event_def cashback_call_def enter_def lift_def returns_def)

lemma sendEvmCashback_entry:
  "\<exists>rest. snd (sendEvmCashback w penv to tok amt) = Call (SendEvmCashback to tok amt) # rest"
  by (simp add: sendEvmCashback_def enter_def bind_io_Inr)

lemma sendEvmCashback_attempted:
  "transfer_attempted (snd (sendEvmCashback w penv to tok amt))"
  using sendEvmCashback_entry[of w penv to tok amt]
  by (auto simp add: transfer_attempted_def)

lemma send_cashback_truthy:
  "send_cashback w penv pr payer =
     (if truthy payer \<and> cashbackAmount > 0 then
        (if network pr \<in> set (SupportedEVMNetworks w) then
           bind_io (sendEvmCashback w penv (the payer) (penv ''EVM_CASHBACK_TOKEN'')
                      cashbackAmount) (\<lambda>h. returns (Some h))
         else returns None)
      else returns None)"
  by (cases payer) (simp_all add: send_cashback_def truthy_def)

lemma send_cashback_events:
  "\<forall>ev\<in>set (snd (send_cashback w penv pr payer)). cashback_event ev"
proof (cases "truthy payer \<and> network pr \<in> set (SupportedEVMNetworks w)")
  case False
  then show ?thesis by (auto simp add: send_cashback_truthy returns_def)
next
  case True
  then have "send_cashback w penv pr payer =
      bind_io (sendEvmCashback w penv (the payer) (penv ''EVM_CASHBACK_TOKEN'') cashbackAmount)
        (\<lambda>h. returns (Some h))"
    by (simp add: send_cashback_truthy cashbackAmount_def)
  moreover have "\<forall>ev\<in>set (snd (bind_io
        (sendEvmCashback w penv (the payer) (penv ''EVM_CASHBACK_TOKEN'') cashbackAmount)
        (\<lambda>h. returns (Some h)))). cashback_event ev"
    by (rule bind_io_events) (simp_all add: sendEvmCashback_events returns_def)
  ultimately show ?thesis by simp
qed

lemma send_cashback_skipped:
  assumes "\<not> (truthy payer \<and> network pr \<in> set (SupportedEVMNetworks w))"
  shows "send_cashback w penv pr payer = (Inr None, [])"
  using assms by (auto simp add: send_cashback_truthy returns_def)

lemma send_cashback_sent:
  assumes "payer = Some a" and "a \<noteq> []" and "network pr \<in> set (SupportedEVMNetworks w)"
  shows "send_cashback w penv pr payer =
           (case sendEvmCashback w penv a (penv ''EVM_CASHBACK_TOKEN'') 1 of
              (Inl e, t) \<Rightarrow> (Inl e, t)
            | (Inr h, t) \<Rightarrow> (Inr (Some h), t))"
  using assms
  by (simp add: send_cashback_truthy truthy_def cashbackAmount_def bind_io_def returns_def
      split: prod.splits sum.splits)

lemma send_cashback_attempted:
  "transfer_attempted (snd (send_cashback w penv pr payer)) =
     (truthy payer \<and> 0 < cashbackAmount \<and> network pr \<in> set (SupportedEVMNetworks w))"
proof (cases "truthy payer \<and> network pr \<in> set (SupportedEVMNetworks w)")
  case False
  then show ?thesis
    by (auto simp add: send_cashback_skipped transfer_attempted_def)
next
  case True
  then obtain a where a: "payer = Some a" "a \<noteq> []"
    by (auto simp add: truthy_def split: option.splits)
  obtain r t where rt: "sendEvmCashback w penv a (penv ''EVM_CASHBACK_TOKEN'') 1 = (r, t)"
    by (cases "sendEvmCashback w penv a (penv ''EVM_CASHBACK_TOKEN'') 1")
  have "transfer_attempted t"
    using sendEvmCashback_attempted[of w penv a "penv ''EVM_CASHBACK_TOKEN''" 1] rt by simp
  then show ?thesis
    using True a rt by (cases r) (simp_all add: send_cashback_sent cashbackAmount_def)
qed

section \<open>The signer of a settlement\<close>

lemma settle_signer_events:
  "\<forall>ev\<in>set (snd (settle_signer w penv pr)).
     \<not> cashback_event ev \<and> \<not> settle_returned ev \<and> \<not> settle_threw ev \<and> \<not> settle_called ev"
  by (simp add: settle_signer_def throw_def extern_def cashback_event_def cashback_call_def
      settle_returned_def settle_threw_def settle_called_def settle_call_def
      split: sum.splits)

lemma settle_signer_no_transfer: "\<not> transfer_attempted (snd (settle_signer w penv pr))"
  by (auto simp add: settle_signer_def throw_def extern_def transfer_attempted_def
      split: sum.splits)

section \<open>The shape of a settlement request\<close>

lemma snd_post_settle: "snd (post_settle w penv req) = snd (settle_try w penv req)"
  by (simp add: post_settle_def split: prod.splits sum.splits)

lemma bind_io_map:
  "bind_io m (\<lambda>h. returns (F h)) =
     (case m of (Inl e, t) \<Rightarrow> (Inl e, t) | (Inr h, t) \<Rightarrow> (Inr (F h), t))"
  by (simp add: bind_io_def returns_def split: prod.splits sum.splits)

lemma settle_try_reached:
  assumes "PaymentRequirementsSchema_parse w (body_paymentRequirements (req_body req)) = Inr pr"
    and "PaymentPayloadSchema_parse w (body_paymentPayload (req_body req)) = Inr pp"
    and "settle_signer w penv pr = (Inr sg, ts)"
    and "settle w sg pp pr (x402Config penv) = Inr r"
  shows "settle_try w penv req =
           (case send_cashback w penv pr (payer_of pp) of
              (Inl e, tc) \<Rightarrow>
                (Inl e, ts @ [Call (Settle sg pp pr (x402Config penv)),
                              Returned (Settle sg pp pr (x402Config penv))] @ tc)
            | (Inr h, tc) \<Rightarrow>
                (Inr (SettleBody True r
                       \<lparr>cb_amount = 1, cb_txHash = h, cb_percent = cashbackPercent w penv\<rparr>),
                 ts @ [Call (Settle sg pp pr (x402Config penv)),
                       Returned (Settle sg pp pr (x402Config penv))] @ tc))"
proof -
  obtain rc tc where sc: "send_cashback w penv pr (payer_of pp) = (rc, tc)"
    by (cases "send_cashback w penv pr (payer_of pp)")
  show ?thesis
    using assms sc
    by (cases rc)
       (simp_all add: settle_try_def bind_io_lift_Inr bind_io_Inr extern_Inr bind_io_map
          cashbackAmount_def)
qed

lemma settle_try_shape:
  "(\<forall>ev\<in>set (snd (settle_try w penv req)). \<not> cashback_event ev) \<or>
   (\<exists>pre rest. snd (settle_try w penv req) = pre @ rest
      \<and> (\<exists>x\<in>set pre. settle_returned x)
      \<and> (\<forall>ev\<in>set pre. \<not> cashback_event ev)
      \<and> (\<forall>ev\<in>set (pre @ rest). \<not> settle_threw ev))"
proof (cases "PaymentRequirementsSchema_parse w (body_paymentRequirements (req_body req))")
  case (Inl e)
  then show ?thesis by (simp add: settle_try_def io_simps)
next
  case pr: (Inr pr)
  show ?thesis
  proof (cases "PaymentPayloadSchema_parse w (body_paymentPayload (req_body req))")
    case (Inl e)
    with pr show ?thesis by (simp add: settle_try_def io_simps)
  next
    case pp: (Inr pp)
    obtain rs ts where sg: "settle_signer w penv pr = (rs, ts)"
      by (cases "settle_signer w penv pr")
    have ts: "\<forall>ev\<in>set ts. \<not> cashback_event ev \<and> \<not> settle_threw ev"
      using settle_signer_events[of w penv pr] sg by simp
    show ?thesis
    proof (cases rs)
      case (Inl e)
      with pr pp sg ts show ?thesis by (simp add: settle_try_def io_simps)
    next
      case sgr: (Inr sgn)
      let ?S = "Settle sgn pp pr (x402Config penv)"
      show ?thesis
      proof (cases "settle w sgn pp pr (x402Config penv)")
        case (Inl e)
        with pr pp sg sgr ts show ?thesis
          by (simp add: settle_try_def io_simps cashback_event_def cashback_call_def)
      next
        case (Inr r)
        obtain rc tc where sc: "send_cashback w penv pr (payer_of pp) = (rc, tc)"
          by (cases "send_cashback w penv pr (payer_of pp)")
        have tc: "\<forall>ev\<in>set tc. cashback_event ev"
          using send_cashback_events[of w penv pr "payer_of pp"] sc by simp
        have tr: "snd (settle_try w penv req) = (ts @ [Call ?S, Returned ?S]) @ tc"
          using settle_try_reached[where penv=penv and ts=ts and sg=sgn, OF pr pp _ Inr] sg sgr sc
          by (cases rc) simp_all
        have no_threw: "\<forall>ev\<in>set tc. \<not> settle_threw ev"
          using tc cashback_event_not_settle by blast
        have "\<exists>x\<in>set (ts @ [Call ?S, Returned ?S]). settle_returned x"
          by (simp add: settle_returned_def settle_call_def)
        moreover have "\<forall>ev\<in>set (ts @ [Call ?S, Returned ?S]). \<not> cashback_event ev"
          using ts by (auto simp add: cashback_event_def cashback_call_def)
        moreover have "\<forall>ev\<in>set ((ts @ [Call ?S, Returned ?S]) @ tc). \<not> settle_threw ev"
          using ts no_threw by (auto simp add: settle_threw_def)
        ultimately show ?thesis using tr by blast
      qed
    qed
  qed
qed

lemma split_after_prefix:
  assumes "pre @ rest = pre' @ e # post" and "e \<notin> set pre" and "x \<in> set pre"
  shows "x \<in> set pre'"
proof -
  from assms(1) obtain us where
    "(pre = pre' @ us \<and> us @ rest = e # post) \<or> (pre @ us = pre' \<and> rest = us @ e # post)"
    by (auto simp add: append_eq_append_conv2)
  then show ?thesis
  proof
    assume h: "pre = pre' @ us \<and> us @ rest = e # post"
    show ?thesis
    proof (cases us)
      case Nil
      with h assms(3) show ?thesis by simp
    next
      case (Cons u us')
      with h have "e \<in> set pre" by simp
      with assms(2) show ?thesis by simp
    qed
  next
    assume "pre @ us = pre' \<and> rest = us @ e # post"
    with assms(3) show ?thesis by auto
  qed
qed

section \<open>Inverting a successful run\<close>

lemma settle_try_Inr:
  assumes "settle_try w penv req = (Inr b, t)"
  shows "\<exists>r h. b = SettleBody True r
           \<lparr>cb_amount = 1, cb_txHash = h, cb_percent = cashbackPercent w penv\<rparr>"
proof (cases "PaymentRequirementsSchema_parse w (body_paymentRequirements (req_body req))")
  case (Inl e)
  with assms show ?thesis by (simp add: settle_try_def bind_io_lift_Inl)
next
  case pr: (Inr pr)
  show ?thesis
  proof (cases "PaymentPayloadSchema_parse w (body_paymentPayload (req_body req))")
    case (Inl e)
    with assms pr show ?thesis
      by (simp add: settle_try_def bind_io_lift_Inl bind_io_lift_Inr)
  next
    case pp: (Inr pp)
    obtain rs ts where sg: "settle_signer w penv pr = (rs, ts)"
      by (cases "settle_signer w penv pr")
    show ?thesis
    proof (cases rs)
      case (Inl e)
      with assms pr pp sg show ?thesis
        by (simp add: settle_try_def bind_io_lift_Inr bind_io_Inl)
    next
      case sgr: (Inr sgn)
      show ?thesis
      proof (cases "settle w sgn pp pr (x402Config penv)")
        case (Inl e)
        with assms pr pp sg sgr show ?thesis
          by (simp add: settle_try_def bind_io_lift_Inr bind_io_Inr bind_io_Inl extern_Inl)
      next
        case (Inr r)
        obtain rc tc where sc: "send_cashback w penv pr (payer_of pp) = (rc, tc)"
          by (cases "send_cashback w penv pr (payer_of pp)")
        from settle_try_reached[where penv=penv and ts=ts and sg=sgn, OF pr pp _ Inr]
          sg sgr sc assms
        show ?thesis by (cases rc) simp_all
      qed
    qed
  qed
qed

lemma fst_post_settle:
  "fst (post_settle w penv req) =
     (case fst (settle_try w penv req) of
        Inr b \<Rightarrow> Responded (ok_json b)
      | Inl e \<Rightarrow> Responded \<lparr>status = 400, body = ErrorBody (String_of e)\<rparr>)"
  by (simp add: post_settle_def split: prod.splits sum.splits)

lemma fst_post_verify:
  "fst (post_verify w penv req) =
     (case fst (verify_try w penv req) of
        Inr v \<Rightarrow> Responded (ok_json (VerifyBody v))
      | Inl e \<Rightarrow> Responded \<lparr>status = 400, body = ErrorBody ''Invalid request''\<rparr>)"
  by (simp add: post_verify_def split: prod.splits sum.splits)

lemma snd_post_verify: "snd (post_verify w penv req) = snd (verify_try w penv req)"
  by (simp add: post_verify_def split: prod.splits sum.splits)

lemma settle_reached:
  assumes "PaymentRequirementsSchema_parse w (body_paymentRequirements (req_body req)) = Inr pr"
    and "PaymentPayloadSchema_parse w (body_paymentPayload (req_body req)) = Inr pp"
    and "fst (settle_signer w penv pr) = Inr sg"
    and "settle w sg pp pr (x402Config penv) = Inr r"
  shows "fst (settle_try w penv req) =
           (case fst (send_cashback w penv pr (payer_of pp)) of
              Inl e \<Rightarrow> Inl e
            | Inr h \<Rightarrow> Inr (SettleBody True r
                \<lparr>cb_amount = 1, cb_txHash = h, cb_percent = cashbackPercent w penv\<rparr>))"
    and "snd (settle_try w penv req) =
           snd (settle_signer w penv pr)
           @ [Call (Settle sg pp pr (x402Config penv)),
              Returned (Settle sg pp pr (x402Config penv))]
           @ snd (send_cashback w penv pr (payer_of pp))"
proof -
  obtain ts where ts: "settle_signer w penv pr = (Inr sg, ts)"
    using assms(3) by (cases "settle_signer w penv pr") simp
  obtain rc tc where sc: "send_cashback w penv pr (payer_of pp) = (rc, tc)"
    by (cases "send_cashback w penv pr (payer_of pp)")
  note reached = settle_try_reached[OF assms(1) assms(2) ts assms(4)]
  show "fst (settle_try w penv req) =
           (case fst (send_cashback w penv pr (payer_of pp)) of
              Inl e \<Rightarrow> Inl e
            | Inr h \<Rightarrow> Inr (SettleBody True r
                \<lparr>cb_amount = 1, cb_txHash = h, cb_percent = cashbackPercent w penv\<rparr>))"
    using reached sc by (cases rc) simp_all
  show "snd (settle_try w penv req) =
           snd (settle_signer w penv pr)
           @ [Call (Settle sg pp pr (x402Config penv)),
              Returned (Settle sg pp pr (x402Config penv))]
           @ snd (send_cashback w penv pr (payer_of pp))"
    using reached sc ts by (cases rc) simp_all
qed

lemma settle_reached_attempted:
  assumes "PaymentRequirementsSchema_parse w (body_paymentRequirements (req_body req)) = Inr pr"
    and "PaymentPayloadSchema_parse w (body_paymentPayload (req_body req)) = Inr pp"
    and "fst (settle_signer w penv pr) = Inr sg"
    and "settle w sg pp pr (x402Config penv) = Inr r"
  shows "transfer_attempted (snd (post_settle w penv req)) =
           (truthy (payer_of pp) \<and> 0 < cashbackAmount
            \<and> network pr \<in> set (SupportedEVMNetworks w))"
  using settle_reached(2)[OF assms] settle_signer_no_transfer[of w penv pr]
  by (simp add: snd_post_settle transfer_attempted_append transfer_attempted_Cons
      send_cashback_attempted)

lemma verify_try_parsed:
  assumes "PaymentRequirementsSchema_parse w (body_paymentRequirements (req_body req)) = Inr pr"
    and "PaymentPayloadSchema_parse w (body_paymentPayload (req_body req)) = Inr pp"
  shows "verify_try w penv req =
           bind_io (verify_client w penv pr) (\<lambda>client.
             extern (Verify client pp pr (x402Config penv))
               (verify w client pp pr (x402Config penv)))"
  using assms by (simp add: verify_try_def bind_io_lift_Inr)

lemma run_extern_then_verify:
  "snd (bind_io (bind_io (extern c r) (\<lambda>x. returns (F x))) (\<lambda>client. extern (V client) (G client))) =
     (case r of
        Inl e \<Rightarrow> [Call c, Threw c e]
      | Inr x \<Rightarrow> [Call c, Returned c, Call (V (F x)),
                  (case G (F x) of Inl e \<Rightarrow> Threw (V (F x)) e | Inr v \<Rightarrow> Returned (V (F x)))])"
  by (simp add: bind_io_def extern_def returns_def split: sum.splits prod.splits)

lemma settle_not_reached:
  assumes "PaymentRequirementsSchema_parse w (body_paymentRequirements (req_body req)) = Inr pr"
    and "PaymentPayloadSchema_parse w (body_paymentPayload (req_body req)) = Inr pp"
    and "\<not> (\<exists>sg r. fst (settle_signer w penv pr) = Inr sg
              \<and> settle w sg pp pr (x402Config penv) = Inr r)"
  shows "\<not> transfer_attempted (snd (post_settle w penv req))"
proof -
  obtain rs ts where sg: "settle_signer w penv pr = (rs, ts)"
    by (cases "settle_signer w penv pr")
  have ts: "\<not> transfer_attempted ts"
    using settle_signer_no_transfer[of w penv pr] sg by simp
  show ?thesis
  proof (cases rs)
    case (Inl e)
    with assms(1) assms(2) sg ts show ?thesis
      by (simp add: snd_post_settle settle_try_def bind_io_lift_Inr bind_io_Inl)
  next
    case (Inr sgn)
    with assms(3) sg obtain e where "settle w sgn pp pr (x402Config penv) = Inl e"
      by (cases "settle w sgn pp pr (x402Config penv)") auto
    with assms(1) assms(2) sg Inr ts show ?thesis
      by (simp add: snd_post_settle settle_try_def bind_io_lift_Inr bind_io_Inr bind_io_Inl
          extern_Inl transfer_attempted_append transfer_attempted_Cons
          transfer_attempted_def)
  qed
qed

section \<open>Concrete runs\<close>

lemmas run_defs = post_settle_def post_verify_def get_supported_def supported_kinds_def
  settle_try_def verify_try_def verify_client_def stub_world_def stub_env_def evm_only_env_def
  stub_request_def stub_requirements_def stub_payload_def stub_settlement_def
  failed_settlement_def reverting_world_def no_decimals_world_def
  failed_settlement_world_def no_signer_world_def bind_io_def lift_def extern_def
  settle_signer_def send_cashback_def sendEvmCashback_def enter_def catch_io_def returns_def
  throw_def EVM_PRIVATE_KEY_def SVM_PRIVATE_KEY_def or_default_def x402Config_def
  SVM_RPC_URL_def payer_of_def truthy_def cashbackAmount_def EVM_RPC_URL_def toString_1
  digits_value_def ok_json_def cashbackPercent_def Number_def is_digit_def String_of_def
  startup_check_def

section \<open>Claims about \<^verbatim>\<open>POST /settle\<close>\<close>

text \<open>
  Claim C1. In \<^verbatim>\<open>POST /settle\<close> the cashback transfer is sequenced after the settlement:
  whenever an event of the cashback transfer (the entry of \<^verbatim>\<open>sendEvmCashback\<close> or any of
  its steps) stands in the log of a request, the settle call has returned before it, and
  no settle call of that request threw. So no cashback is attempted before settle has
  returned, and none when settle throws.
\<close>

theorem cashback_only_after_settle_returned:
  assumes "snd (post_settle w penv req) = pre @ ev # post" and "cashback_event ev"
  shows "(\<exists>x\<in>set pre. settle_returned x) \<and> (\<forall>y\<in>set (pre @ ev # post). \<not> settle_threw y)"
proof -
  have tr: "snd (settle_try w penv req) = pre @ ev # post"
    using assms(1) by (simp add: snd_post_settle)
  from settle_try_shape[of w penv req] show ?thesis
  proof
    assume "\<forall>e\<in>set (snd (settle_try w penv req)). \<not> cashback_event e"
    with tr assms(2) show ?thesis by simp
  next
    assume "\<exists>p rest. snd (settle_try w penv req) = p @ rest
      \<and> (\<exists>x\<in>set p. settle_returned x)
      \<and> (\<forall>e\<in>set p. \<not> cashback_event e)
      \<and> (\<forall>e\<in>set (p @ rest). \<not> settle_threw e)"
    then obtain p rest x where p: "snd (settle_try w penv req) = p @ rest"
      and x: "x \<in> set p" "settle_returned x"
      and nc: "\<forall>e\<in>set p. \<not> cashback_event e"
      and nt: "\<forall>e\<in>set (p @ rest). \<not> settle_threw e"
      by blast
    have "ev \<notin> set p" using nc assms(2) by blast
    with p tr x(1) have "x \<in> set pre"
      using split_after_prefix[of p rest pre ev post x] by simp
    with x(2) nt p tr show ?thesis by auto
  qed
qed

theorem cashback_only_after_settle_returned_witness:
  "snd (post_settle stub_world stub_env (stub_request ''base-sepolia'' ''0xpayer'')) =
     [Call (CreateSigner ''base-sepolia'' ''0xkey''),
      Returned (CreateSigner ''base-sepolia'' ''0xkey''),
      Call (Settle (Signer 2) (stub_payload ''0xpayer'') (stub_requirements ''base-sepolia'') None),
      Returned (Settle (Signer 2) (stub_payload ''0xpayer'')
                  (stub_requirements ''base-sepolia'') None)]
     @ Call (SendEvmCashback ''0xpayer'' (Some ''0xtoken'') 1)
     # [Call (NewJsonRpcProvider ''https://sepolia.base.org''),
        Returned (NewJsonRpcProvider ''https://sepolia.base.org''),
        Call (NewWallet ''0xkey'' (Provider 3)), Returned (NewWallet ''0xkey'' (Provider 3)),
        Call (NewContract (Some ''0xtoken'') (Wallet 4)),
        Returned (NewContract (Some ''0xtoken'') (Wallet 4)),
        Call (TokenDecimals (Contract 5)), Returned (TokenDecimals (Contract 5)),
        Call (TokenTransfer (Contract 5) ''0xpayer'' 1000000),
        Returned (TokenTransfer (Contract 5) ''0xpayer'' 1000000),
        Call (TxWait (Tx ''0xcafe'')), Returned (TxWait (Tx ''0xcafe''))]
   \<and> (\<exists>x\<in>set [Call (CreateSigner ''base-sepolia'' ''0xkey''),
                 Returned (CreateSigner ''base-sepolia'' ''0xkey''),
                 Call (Settle (Signer 2) (stub_payload ''0xpayer'')
                         (stub_requirements ''base-sepolia'') None),
                 Returned (Settle (Signer 2) (stub_payload ''0xpayer'')
                             (stub_requirements ''base-sepolia'') None)].
          settle_returned x)"
  (is "?t = ?pre @ ?ev # ?post \<and> ?R")
proof -
  have run: "?t = ?pre @ ?ev # ?post"
    by (simp add: run_defs)
  have ce: "cashback_event ?ev"
    by (simp add: cashback_event_def cashback_call_def)
  from cashback_only_after_settle_returned[OF run ce] have "?R" by (rule conjunct1)
  with run show ?thesis by (rule conjI)
qed

text \<open>
  Claim C2. When the settle call has returned a result and the cashback transfer then
  throws \<open>e\<close>, the handler answers HTTP 400 with the body \<^verbatim>\<open>{error: String(e)}\<close>; the
  settlement had returned, and its result is in no response of that request.
\<close>

theorem cashback_failure_answers_400:
  assumes "PaymentRequirementsSchema_parse w (body_paymentRequirements (req_body req)) = Inr pr"
    and "PaymentPayloadSchema_parse w (body_paymentPayload (req_body req)) = Inr pp"
    and "fst (settle_signer w penv pr) = Inr sg"
    and "settle w sg pp pr (x402Config penv) = Inr r"
    and "payer_of pp = Some a" and "a \<noteq> []"
    and "network pr \<in> set (SupportedEVMNetworks w)"
    and "fst (sendEvmCashback w penv a (penv ''EVM_CASHBACK_TOKEN'') 1) = Inl e"
  shows "fst (post_settle w penv req) =
           Responded \<lparr>status = 400, body = ErrorBody (String_of e)\<rparr>
       \<and> Returned (Settle sg pp pr (x402Config penv)) \<in> set (snd (post_settle w penv req))
       \<and> (\<forall>resp ok c. fst (post_settle w penv req) = Responded resp
             \<longrightarrow> body resp \<noteq> SettleBody ok r c)"
proof -
  obtain t where t: "sendEvmCashback w penv a (penv ''EVM_CASHBACK_TOKEN'') 1 = (Inl e, t)"
    using assms(8) by (cases "sendEvmCashback w penv a (penv ''EVM_CASHBACK_TOKEN'') 1") simp
  have "send_cashback w penv pr (payer_of pp) = (Inl e, t)"
    using send_cashback_sent[OF assms(5) assms(6) assms(7), of penv] t by simp
  then have "fst (settle_try w penv req) = Inl e"
    using settle_reached(1)[OF assms(1-4)] by simp
  then have resp: "fst (post_settle w penv req) =
           Responded \<lparr>status = 400, body = ErrorBody (String_of e)\<rparr>"
    by (simp add: fst_post_settle)
  have "Returned (Settle sg pp pr (x402Config penv)) \<in> set (snd (post_settle w penv req))"
    using settle_reached(2)[OF assms(1-4)] by (simp add: snd_post_settle)
  with resp show ?thesis by simp
qed

theorem cashback_failure_answers_400_witness:
  "fst (sendEvmCashback reverting_world stub_env ''0xpayer'' (stub_env ''EVM_CASHBACK_TOKEN'') 1)
     = Inl (Error ''reverted'')
   \<and> settle reverting_world (Signer 2) (stub_payload ''0xpayer'')
        (stub_requirements ''base-sepolia'') (x402Config stub_env) = Inr stub_settlement
   \<and> fst (post_settle reverting_world stub_env (stub_request ''base-sepolia'' ''0xpayer'')) =
       Responded \<lparr>status = 400, body = ErrorBody ''Error: reverted''\<rparr>"
  (is "?A \<and> ?B \<and> ?C")
proof -
  have h1: "PaymentRequirementsSchema_parse reverting_world
      (body_paymentRequirements (req_body (stub_request ''base-sepolia'' ''0xpayer'')))
      = Inr (stub_requirements ''base-sepolia'')"
    by (simp add: run_defs)
  have h2: "PaymentPayloadSchema_parse reverting_world
      (body_paymentPayload (req_body (stub_request ''base-sepolia'' ''0xpayer'')))
      = Inr (stub_payload ''0xpayer'')"
    by (simp add: run_defs)
  have h3: "fst (settle_signer reverting_world stub_env (stub_requirements ''base-sepolia''))
      = Inr (Signer 2)"
    by (simp add: run_defs)
  have h4: "?B" by (simp add: run_defs)
  have h5: "payer_of (stub_payload ''0xpayer'') = Some ''0xpayer''"
    by (simp add: run_defs)
  have h6: "''0xpayer'' \<noteq> []" by simp
  have h7: "network (stub_requirements ''base-sepolia'')
      \<in> set (SupportedEVMNetworks reverting_world)"
    by (simp add: run_defs)
  have h8: "?A" by (simp add: run_defs)
  from cashback_failure_answers_400[OF h1 h2 h3 h4 h5 h6 h7 h8]
  have "?C" by (simp add: String_of_def)
  with h8 h4 show ?thesis by blast
qed

text \<open>
  Claim C3. In \<^verbatim>\<open>POST /settle\<close>, for a validated request, a cashback transfer is attempted
  exactly when the cashback step is reached (settle has returned), a payer was extracted
  (the payload carries an authorization, whose \<^verbatim>\<open>from\<close> is a non-empty string, as every
  validated address is), the cashback amount is positive and the network is an EVM
  network. When the step is reached with a payload without authorization, or on a network
  that is not an EVM network (an SVM one), no transfer is attempted and the response has
  \<^verbatim>\<open>txHash: null\<close>.
\<close>

theorem cashback_attempted_iff:
  assumes "PaymentRequirementsSchema_parse w (body_paymentRequirements (req_body req)) = Inr pr"
    and "PaymentPayloadSchema_parse w (body_paymentPayload (req_body req)) = Inr pp"
  shows "(transfer_attempted (snd (post_settle w penv req)) \<longleftrightarrow>
            (\<exists>sg r. fst (settle_signer w penv pr) = Inr sg
                \<and> settle w sg pp pr (x402Config penv) = Inr r)
            \<and> truthy (payer_of pp) \<and> 0 < cashbackAmount
            \<and> network pr \<in> set (SupportedEVMNetworks w))
       \<and> (\<forall>sg r. fst (settle_signer w penv pr) = Inr sg
              \<and> settle w sg pp pr (x402Config penv) = Inr r
              \<and> ((\<exists>tx. payload pp = ExactSvmPayload tx)
                  \<or> network pr \<notin> set (SupportedEVMNetworks w))
            \<longrightarrow> \<not> transfer_attempted (snd (post_settle w penv req))
              \<and> fst (post_settle w penv req) =
                  Responded (ok_json (SettleBody True r
                    \<lparr>cb_amount = 1, cb_txHash = None, cb_percent = cashbackPercent w penv\<rparr>)))"
proof -
  have reached: "transfer_attempted (snd (post_settle w penv req)) =
      (truthy (payer_of pp) \<and> 0 < cashbackAmount \<and> network pr \<in> set (SupportedEVMNetworks w))"
    if "fst (settle_signer w penv pr) = Inr sg" and "settle w sg pp pr (x402Config penv) = Inr r"
    for sg r
    by (rule settle_reached_attempted[OF assms that])
  have unreached: "\<not> transfer_attempted (snd (post_settle w penv req))"
    if "\<not> (\<exists>sg r. fst (settle_signer w penv pr) = Inr sg
              \<and> settle w sg pp pr (x402Config penv) = Inr r)"
    by (rule settle_not_reached[OF assms that])
  have iff: "transfer_attempted (snd (post_settle w penv req)) \<longleftrightarrow>
            (\<exists>sg r. fst (settle_signer w penv pr) = Inr sg
                \<and> settle w sg pp pr (x402Config penv) = Inr r)
            \<and> truthy (payer_of pp) \<and> 0 < cashbackAmount
            \<and> network pr \<in> set (SupportedEVMNetworks w)"
    using reached unreached by blast
  have skipped: "\<not> transfer_attempted (snd (post_settle w penv req))
        \<and> fst (post_settle w penv req) =
        Responded (ok_json (SettleBody True r
          \<lparr>cb_amount = 1, cb_txHash = None, cb_percent = cashbackPercent w penv\<rparr>))"
    if sg: "fst (settle_signer w penv pr) = Inr sg"
      and r: "settle w sg pp pr (x402Config penv) = Inr r"
      and no: "(\<exists>tx. payload pp = ExactSvmPayload tx)
               \<or> network pr \<notin> set (SupportedEVMNetworks w)"
    for sg r
  proof -
    from no have gate: "\<not> (truthy (payer_of pp) \<and> network pr \<in> set (SupportedEVMNetworks w))"
      by (auto simp add: payer_of_def truthy_def)
    then have "send_cashback w penv pr (payer_of pp) = (Inr None, [])"
      by (rule send_cashback_skipped)
    then have "fst (post_settle w penv req) =
        Responded (ok_json (SettleBody True r
          \<lparr>cb_amount = 1, cb_txHash = None, cb_percent = cashbackPercent w penv\<rparr>))"
      using settle_reached(1)[OF assms sg r] by (simp add: fst_post_settle)
    moreover have "\<not> transfer_attempted (snd (post_settle w penv req))"
      using reached[OF sg r] gate by blast
    ultimately show ?thesis by blast
  qed
  from iff skipped show ?thesis by blast
qed

theorem cashback_attempted_iff_witness:
  "transfer_attempted
     (snd (post_settle stub_world stub_env (stub_request ''base-sepolia'' ''0xpayer'')))
   \<and> \<not> transfer_attempted
         (snd (post_settle stub_world stub_env (stub_request ''solana-devnet'' ''0xpayer'')))
   \<and> fst (post_settle stub_world stub_env (stub_request ''solana-devnet'' ''0xpayer'')) =
       Responded (ok_json (SettleBody True stub_settlement
         \<lparr>cb_amount = 1, cb_txHash = None, cb_percent = Num 2\<rparr>))
   \<and> \<not> transfer_attempted
         (snd (post_settle stub_world stub_env (stub_request ''base-sepolia'' ''svm'')))"
  (is "?A \<and> ?B \<and> ?C \<and> ?D")
proof -
  have e1: "PaymentRequirementsSchema_parse stub_world
      (body_paymentRequirements (req_body (stub_request ''base-sepolia'' ''0xpayer'')))
      = Inr (stub_requirements ''base-sepolia'')"
    by (simp add: run_defs)
  have e2: "PaymentPayloadSchema_parse stub_world
      (body_paymentPayload (req_body (stub_request ''base-sepolia'' ''0xpayer'')))
      = Inr (stub_payload ''0xpayer'')"
    by (simp add: run_defs)
  have e3: "fst (settle_signer stub_world stub_env (stub_requirements ''base-sepolia''))
      = Inr (Signer 2)"
    by (simp add: run_defs)
  have e4: "settle stub_world (Signer 2) (stub_payload ''0xpayer'')
      (stub_requirements ''base-sepolia'') (x402Config stub_env) = Inr stub_settlement"
    by (simp add: run_defs)
  have gate: "truthy (payer_of (stub_payload ''0xpayer'')) \<and> 0 < cashbackAmount
      \<and> network (stub_requirements ''base-sepolia'') \<in> set (SupportedEVMNetworks stub_world)"
    by (simp add: run_defs)
  from cashback_attempted_iff[OF e1 e2, of stub_env] e3 e4 gate have a: "?A"
    by blast
  have s1: "PaymentRequirementsSchema_parse stub_world
      (body_paymentRequirements (req_body (stub_request ''solana-devnet'' ''0xpayer'')))
      = Inr (stub_requirements ''solana-devnet'')"
    by (simp add: run_defs)
  have s2: "PaymentPayloadSchema_parse stub_world
      (body_paymentPayload (req_body (stub_request ''solana-devnet'' ''0xpayer'')))
      = Inr (stub_payload ''0xpayer'')"
    by (simp add: run_defs)
  have s3: "fst (settle_signer stub_world stub_env (stub_requirements ''solana-devnet''))
      = Inr (Signer 2)"
    by (simp add: run_defs)
  have s4: "settle stub_world (Signer 2) (stub_payload ''0xpayer'')
      (stub_requirements ''solana-devnet'') (x402Config stub_env) = Inr stub_settlement"
    by (simp add: run_defs)
  have s5: "network (stub_requirements ''solana-devnet'')
      \<notin> set (SupportedEVMNetworks stub_world)"
    by (simp add: run_defs)
  have pct: "cashbackPercent stub_world stub_env = Num 2"
    by (simp add: run_defs)
  from cashback_attempted_iff[OF s1 s2, of stub_env] s3 s4 s5
  have "?B \<and> fst (post_settle stub_world stub_env (stub_request ''solana-devnet'' ''0xpayer'')) =
       Responded (ok_json (SettleBody True stub_settlement
         \<lparr>cb_amount = 1, cb_txHash = None, cb_percent = cashbackPercent stub_world stub_env\<rparr>))"
    by blast
  with pct have bc: "?B \<and> ?C" by simp
  have n1: "PaymentRequirementsSchema_parse stub_world
      (body_paymentRequirements (req_body (stub_request ''base-sepolia'' ''svm'')))
      = Inr (stub_requirements ''base-sepolia'')"
    by (simp add: run_defs)
  have n2: "PaymentPayloadSchema_parse stub_world
      (body_paymentPayload (req_body (stub_request ''base-sepolia'' ''svm'')))
      = Inr (stub_payload ''svm'')"
    by (simp add: run_defs)
  have n4: "settle stub_world (Signer 2) (stub_payload ''svm'')
      (stub_requirements ''base-sepolia'') (x402Config stub_env) = Inr stub_settlement"
    by (simp add: run_defs)
  have n5: "\<exists>tx. payload (stub_payload ''svm'') = ExactSvmPayload tx"
    by (simp add: run_defs)
  from cashback_attempted_iff[OF n1 n2, of stub_env] e3 n4 n5 have d: "?D"
    by blast
  from a bc d show ?thesis by blast
qed

text \<open>
  Claim C4. Every successful response of \<^verbatim>\<open>POST /settle\<close> reports the cashback amount 1,
  whatever the configuration and the payment, and as percent the number that
  \<^verbatim>\<open>CASHBACK_PERCENT\<close> (or \<^verbatim>\<open>"2"\<close> when it is unset or empty) converts to: 2 when it is
  unset.
\<close>

theorem cashback_amount_fixed:
  assumes "fst (post_settle w penv req) = Responded resp" and "status resp = 200"
  shows "(\<exists>r h. body resp = SettleBody True r
            \<lparr>cb_amount = 1, cb_txHash = h,
             cb_percent = Number (runtime_Number w)
                            (or_default (penv ''CASHBACK_PERCENT'') ''2'')\<rparr>)
       \<and> (penv ''CASHBACK_PERCENT'' = None \<longrightarrow> cb_percent (body_cashback (body resp)) = Num 2)"
proof -
  obtain rt t where rt: "settle_try w penv req = (rt, t)"
    by (cases "settle_try w penv req")
  show ?thesis
  proof (cases rt)
    case (Inl e)
    with rt assms show ?thesis by (auto simp add: post_settle_def)
  next
    case (Inr b)
    with rt assms(1) have resp: "resp = ok_json b" by (simp add: post_settle_def)
    from settle_try_Inr[of w penv req b t] rt Inr obtain r h where
      b: "b = SettleBody True r
            \<lparr>cb_amount = 1, cb_txHash = h, cb_percent = cashbackPercent w penv\<rparr>"
      by auto
    have "penv ''CASHBACK_PERCENT'' = None \<longrightarrow> cashbackPercent w penv = Num 2"
      by (simp add: cashbackPercent_def or_default_def Number_2)
    with resp b show ?thesis by (auto simp add: ok_json_def cashbackPercent_def)
  qed
qed

theorem cashback_amount_fixed_witness:
  "fst (post_settle stub_world (stub_env(''CASHBACK_PERCENT'' \<mapsto> ''5''))
         (stub_request ''base-sepolia'' ''0xpayer'')) =
     Responded (ok_json (SettleBody True stub_settlement
       \<lparr>cb_amount = 1, cb_txHash = Some ''0xcafe'', cb_percent = Num 5\<rparr>))
   \<and> fst (post_settle stub_world stub_env (stub_request ''solana'' ''0xpayer'')) =
       Responded (ok_json (SettleBody True stub_settlement
         \<lparr>cb_amount = 1, cb_txHash = None, cb_percent = Num 2\<rparr>))
   \<and> cb_percent (body_cashback (body (ok_json (SettleBody True stub_settlement
         \<lparr>cb_amount = 1, cb_txHash = None, cb_percent = Num 2\<rparr>)))) = Num 2"
  (is "?A \<and> ?B \<and> ?C")
proof -
  have a: "?A" by (simp add: run_defs)
  have b: "?B" by (simp add: run_defs)
  have st: "status (ok_json (SettleBody True stub_settlement
         \<lparr>cb_amount = 1, cb_txHash = None, cb_percent = Num 2\<rparr>)) = 200"
    by (simp add: ok_json_def)
  have unset: "stub_env ''CASHBACK_PERCENT'' = None" by (simp add: stub_env_def)
  from cashback_amount_fixed[OF b st] unset have "?C" by blast
  with a b show ?thesis by blast
qed

text \<open>
  Claim C9. \<^verbatim>\<open>POST /settle\<close> does not look into the settlement result. For any result \<open>r\<close>
  that settle returns, whatever its own success flag, the cashback step runs after it,
  gated only by payer, amount and network, and when that step does not throw the response
  has \<^verbatim>\<open>success: true\<close> and carries \<open>r\<close>.
\<close>

theorem settlement_result_not_inspected:
  assumes "PaymentRequirementsSchema_parse w (body_paymentRequirements (req_body req)) = Inr pr"
    and "PaymentPayloadSchema_parse w (body_paymentPayload (req_body req)) = Inr pp"
    and "fst (settle_signer w penv pr) = Inr sg"
    and "settle w sg pp pr (x402Config penv) = Inr r"
  shows "(transfer_attempted (snd (post_settle w penv req)) \<longleftrightarrow>
            truthy (payer_of pp) \<and> 0 < cashbackAmount
            \<and> network pr \<in> set (SupportedEVMNetworks w))
       \<and> (\<forall>h. fst (send_cashback w penv pr (payer_of pp)) = Inr h \<longrightarrow>
             fst (post_settle w penv req) =
               Responded (ok_json (SettleBody True r
                 \<lparr>cb_amount = 1, cb_txHash = h, cb_percent = cashbackPercent w penv\<rparr>)))
       \<and> snd (post_settle w penv req) =
           snd (settle_signer w penv pr)
           @ [Call (Settle sg pp pr (x402Config penv)),
              Returned (Settle sg pp pr (x402Config penv))]
           @ snd (send_cashback w penv pr (payer_of pp))"
proof -
  have "transfer_attempted (snd (post_settle w penv req)) =
      (truthy (payer_of pp) \<and> 0 < cashbackAmount \<and> network pr \<in> set (SupportedEVMNetworks w))"
    by (rule settle_reached_attempted[OF assms])
  moreover have "fst (post_settle w penv req) =
               Responded (ok_json (SettleBody True r
                 \<lparr>cb_amount = 1, cb_txHash = h, cb_percent = cashbackPercent w penv\<rparr>))"
    if "fst (send_cashback w penv pr (payer_of pp)) = Inr h" for h
    using that settle_reached(1)[OF assms] by (simp add: fst_post_settle)
  moreover have "snd (post_settle w penv req) =
           snd (settle_signer w penv pr)
           @ [Call (Settle sg pp pr (x402Config penv)),
              Returned (Settle sg pp pr (x402Config penv))]
           @ snd (send_cashback w penv pr (payer_of pp))"
    using settle_reached(2)[OF assms] by (simp add: snd_post_settle)
  ultimately show ?thesis by blast
qed

theorem settlement_result_not_inspected_witness:
  "success failed_settlement = False
   \<and> settle failed_settlement_world (Signer 2) (stub_payload ''0xpayer'')
        (stub_requirements ''base-sepolia'') (x402Config stub_env) = Inr failed_settlement
   \<and> transfer_attempted
       (snd (post_settle failed_settlement_world stub_env
               (stub_request ''base-sepolia'' ''0xpayer'')))
   \<and> fst (post_settle failed_settlement_world stub_env
             (stub_request ''base-sepolia'' ''0xpayer'')) =
       Responded (ok_json (SettleBody True failed_settlement
         \<lparr>cb_amount = 1, cb_txHash = Some ''0xcafe'', cb_percent = Num 2\<rparr>))"
  (is "?A \<and> ?B \<and> ?C \<and> ?D")
proof -
  have h1: "PaymentRequirementsSchema_parse failed_settlement_world
      (body_paymentRequirements (req_body (stub_request ''base-sepolia'' ''0xpayer'')))
      = Inr (stub_requirements ''base-sepolia'')"
    by (simp add: run_defs)
  have h2: "PaymentPayloadSchema_parse failed_settlement_world
      (body_paymentPayload (req_body (stub_request ''base-sepolia'' ''0xpayer'')))
      = Inr (stub_payload ''0xpayer'')"
    by (simp add: run_defs)
  have h3: "fst (settle_signer failed_settlement_world stub_env
      (stub_requirements ''base-sepolia'')) = Inr (Signer 2)"
    by (simp add: run_defs)
  have h4: "?B" by (simp add: run_defs)
  have a: "?A" by (simp add: failed_settlement_def)
  have sc: "fst (send_cashback failed_settlement_world stub_env
      (stub_requirements ''base-sepolia'') (payer_of (stub_payload ''0xpayer'')))
      = Inr (Some ''0xcafe'')"
    by (simp add: run_defs)
  have pct: "cashbackPercent failed_settlement_world stub_env = Num 2"
    by (simp add: run_defs)
  have gate: "truthy (payer_of (stub_payload ''0xpayer'')) \<and> 0 < cashbackAmount
      \<and> network (stub_requirements ''base-sepolia'')
          \<in> set (SupportedEVMNetworks failed_settlement_world)"
    by (simp add: run_defs)
  note res = settlement_result_not_inspected[OF h1 h2 h3 h4]
  from res gate have c: "?C" by blast
  from res sc have "fst (post_settle failed_settlement_world stub_env
             (stub_request ''base-sepolia'' ''0xpayer'')) =
       Responded (ok_json (SettleBody True failed_settlement
         \<lparr>cb_amount = 1, cb_txHash = Some ''0xcafe'',
          cb_percent = cashbackPercent failed_settlement_world stub_env\<rparr>))"
    by blast
  with pct have d: "?D" by simp
  from a h4 c d show ?thesis by blast
qed

section \<open>Claims about the choice of client and signer\<close>

text \<open>
  Claim C5. In \<^verbatim>\<open>POST /verify\<close>, with validated requirements and payload: on an EVM
  network the only construction is \<^verbatim>\<open>createConnectedClient(network)\<close> and verify, when it
  is called, is given that connected client; on an SVM network (one that is not an EVM
  network) the only construction is \<^verbatim>\<open>createSigner(network, SVM_PRIVATE_KEY)\<close> and verify
  is given that signer; and whenever verify is called, exactly one construction was made.
\<close>

theorem verify_client_by_network:
  assumes "PaymentRequirementsSchema_parse w (body_paymentRequirements (req_body req)) = Inr pr"
    and "PaymentPayloadSchema_parse w (body_paymentPayload (req_body req)) = Inr pp"
    and "snd (post_verify w penv req) = t"
  shows "(network pr \<in> set (SupportedEVMNetworks w) \<longrightarrow>
            constructor_calls t = [CreateConnectedClient (network pr)]
            \<and> verify_clients t =
                (case createConnectedClient w (network pr) of
                   Inl e \<Rightarrow> [] | Inr c \<Rightarrow> [IsConnectedClient c]))
       \<and> (network pr \<notin> set (SupportedEVMNetworks w)
            \<and> network pr \<in> set (SupportedSVMNetworks w) \<longrightarrow>
            constructor_calls t = [CreateSigner (network pr) (SVM_PRIVATE_KEY penv)]
            \<and> verify_clients t =
                (case createSigner w (network pr) (SVM_PRIVATE_KEY penv) of
                   Inl e \<Rightarrow> [] | Inr s \<Rightarrow> [IsSigner s]))
       \<and> (verify_clients t \<noteq> [] \<longrightarrow> length (constructor_calls t) = 1)"
proof -
  have t: "t = snd (bind_io (verify_client w penv pr) (\<lambda>client.
             extern (Verify client pp pr (x402Config penv))
               (verify w client pp pr (x402Config penv))))"
    using assms(3) verify_try_parsed[OF assms(1) assms(2), of penv]
    by (simp add: snd_post_verify)
  consider (evm) "network pr \<in> set (SupportedEVMNetworks w)"
    | (svm) "network pr \<notin> set (SupportedEVMNetworks w)"
            "network pr \<in> set (SupportedSVMNetworks w)"
    | (none) "network pr \<notin> set (SupportedEVMNetworks w)"
             "network pr \<notin> set (SupportedSVMNetworks w)"
    by blast
  then show ?thesis
  proof cases
    case evm
    then show ?thesis
      unfolding t verify_client_def
      by (simp add: run_extern_then_verify split: sum.splits)
  next
    case svm
    then show ?thesis
      unfolding t verify_client_def
      by (simp add: run_extern_then_verify split: sum.splits)
  next
    case none
    then show ?thesis
      unfolding t verify_client_def
      by (simp add: bind_io_throw throw_def bind_io_Inl)
  qed
qed

theorem verify_client_by_network_witness:
  "constructor_calls (snd (post_verify stub_world stub_env (stub_request ''base'' ''0xpayer'')))
     = [CreateConnectedClient ''base'']
   \<and> verify_clients (snd (post_verify stub_world stub_env (stub_request ''base'' ''0xpayer'')))
     = [IsConnectedClient (ConnectedClient 1)]
   \<and> constructor_calls (snd (post_verify stub_world stub_env (stub_request ''solana'' ''svm'')))
     = [CreateSigner ''solana'' ''svmkey'']
   \<and> verify_clients (snd (post_verify stub_world stub_env (stub_request ''solana'' ''svm'')))
     = [IsSigner (Signer 2)]"
  (is "?A \<and> ?B \<and> ?C \<and> ?D")
proof -
  have e1: "PaymentRequirementsSchema_parse stub_world
      (body_paymentRequirements (req_body (stub_request ''base'' ''0xpayer'')))
      = Inr (stub_requirements ''base'')"
    by (simp add: run_defs)
  have e2: "PaymentPayloadSchema_parse stub_world
      (body_paymentPayload (req_body (stub_request ''base'' ''0xpayer'')))
      = Inr (stub_payload ''0xpayer'')"
    by (simp add: run_defs)
  from verify_client_by_network[OF e1 e2 refl, of stub_env] have ab: "?A \<and> ?B"
    by (simp add: run_defs)
  have s1: "PaymentRequirementsSchema_parse stub_world
      (body_paymentRequirements (req_body (stub_request ''solana'' ''svm'')))
      = Inr (stub_requirements ''solana'')"
    by (simp add: run_defs)
  have s2: "PaymentPayloadSchema_parse stub_world
      (body_paymentPayload (req_body (stub_request ''solana'' ''svm'')))
      = Inr (stub_payload ''svm'')"
    by (simp add: run_defs)
  from verify_client_by_network[OF s1 s2 refl, of stub_env] have cd: "?C \<and> ?D"
    by (simp add: run_defs)
  from ab cd show ?thesis by blast
qed

text \<open>
  Claim C6. When the validated network is in neither list, \<^verbatim>\<open>POST /verify\<close> and
  \<^verbatim>\<open>POST /settle\<close> both answer HTTP 400 and their logs are empty: no client and no signer
  was constructed.
\<close>

theorem unsupported_network_answers_400:
  assumes "PaymentRequirementsSchema_parse w (body_paymentRequirements (req_body req)) = Inr pr"
    and "network pr \<notin> set (SupportedEVMNetworks w)"
    and "network pr \<notin> set (SupportedSVMNetworks w)"
  shows "post_verify w penv req =
           (Responded \<lparr>status = 400, body = ErrorBody ''Invalid request''\<rparr>, [])
       \<and> (\<exists>e. post_settle w penv req =
                 (Responded \<lparr>status = 400, body = ErrorBody (String_of e)\<rparr>, []))
       \<and> (\<forall>pp. PaymentPayloadSchema_parse w (body_paymentPayload (req_body req)) = Inr pp \<longrightarrow>
             post_settle w penv req =
               (Responded \<lparr>status = 400, body = ErrorBody ''Error: Invalid network''\<rparr>, []))"
proof -
  have v: "verify_client w penv pr = throw (Error ''Invalid network'')"
    using assms by (simp add: verify_client_def)
  have s: "settle_signer w penv pr = throw (Error ''Invalid network'')"
    using assms by (simp add: settle_signer_def)
  show ?thesis
  proof (cases "PaymentPayloadSchema_parse w (body_paymentPayload (req_body req))")
    case (Inl e)
    then show ?thesis using assms(1)
      by (auto simp add: post_verify_def post_settle_def verify_try_def settle_try_def io_simps)
  next
    case (Inr pp)
    have pv: "post_verify w penv req =
           (Responded \<lparr>status = 400, body = ErrorBody ''Invalid request''\<rparr>, [])"
      using Inr assms(1) v
      by (simp add: post_verify_def verify_try_def io_simps throw_def)
    have ps: "post_settle w penv req =
           (Responded \<lparr>status = 400,
              body = ErrorBody (String_of (Error ''Invalid network''))\<rparr>, [])"
      using Inr assms(1) s
      by (simp add: post_settle_def settle_try_def io_simps throw_def)
    have "String_of (Error ''Invalid network'') = ''Error: Invalid network''"
      by (simp add: String_of_def)
    with pv ps Inr show ?thesis by metis
  qed
qed

theorem unsupported_network_answers_400_witness:
  "post_verify stub_world stub_env (stub_request ''ethereum'' ''0xpayer'') =
     (Responded \<lparr>status = 400, body = ErrorBody ''Invalid request''\<rparr>, [])
   \<and> post_settle stub_world stub_env (stub_request ''ethereum'' ''0xpayer'') =
     (Responded \<lparr>status = 400, body = ErrorBody ''Error: Invalid network''\<rparr>, [])"
proof -
  have h1: "PaymentRequirementsSchema_parse stub_world
      (body_paymentRequirements (req_body (stub_request ''ethereum'' ''0xpayer'')))
      = Inr (stub_requirements ''ethereum'')"
    by (simp add: run_defs)
  have h2: "network (stub_requirements ''ethereum'') \<notin> set (SupportedEVMNetworks stub_world)"
    by (simp add: run_defs)
  have h3: "network (stub_requirements ''ethereum'') \<notin> set (SupportedSVMNetworks stub_world)"
    by (simp add: run_defs)
  have h4: "PaymentPayloadSchema_parse stub_world
      (body_paymentPayload (req_body (stub_request ''ethereum'' ''0xpayer'')))
      = Inr (stub_payload ''0xpayer'')"
    by (simp add: run_defs)
  from unsupported_network_answers_400[OF h1 h2 h3, of stub_env] h4 show ?thesis by blast
qed

section \<open>Claims about the cashback transfer\<close>

text \<open>
  Claim C7. In \<^verbatim>\<open>sendEvmCashback\<close>, when the \<^verbatim>\<open>decimals()\<close> lookup throws, the transfer goes
  on: the amount is scaled with 18 decimals (\<^verbatim>\<open>parseUnits(amount.toString(), 18)\<close>), and
  the scaled amount is what \<^verbatim>\<open>transfer\<close> is submitted with; the outcome is that of the
  scaling, the transfer and the wait.
\<close>

theorem decimals_failure_falls_back_to_18:
  assumes "JsonRpcProvider_new w (EVM_RPC_URL penv) = Inr p"
    and "Wallet_new w (EVM_PRIVATE_KEY penv) p = Inr wl"
    and "Contract_new w tok wl = Inr c"
    and "token_decimals w c = Inl e"
    and "pre = [Call (SendEvmCashback to tok amt),
                Call (NewJsonRpcProvider (EVM_RPC_URL penv)),
                Returned (NewJsonRpcProvider (EVM_RPC_URL penv)),
                Call (NewWallet (EVM_PRIVATE_KEY penv) p),
                Returned (NewWallet (EVM_PRIVATE_KEY penv) p),
                Call (NewContract tok wl), Returned (NewContract tok wl),
                Call (TokenDecimals c), Threw (TokenDecimals c) e]"
  shows "sendEvmCashback w penv to tok amt =
           (case parseUnits w (toString amt) 18 of
              Inl x \<Rightarrow> (Inl x, pre)
            | Inr v \<Rightarrow>
                (case token_transfer w c to v of
                   Inl x \<Rightarrow>
                     (Inl x, pre @ [Call (TokenTransfer c to v), Threw (TokenTransfer c to v) x])
                 | Inr tx \<Rightarrow>
                     (case tx_wait w tx of
                        Inl x \<Rightarrow>
                          (Inl x, pre @ [Call (TokenTransfer c to v), Returned (TokenTransfer c to v),
                                         Call (TxWait tx), Threw (TxWait tx) x])
                      | Inr u \<Rightarrow>
                          (Inr (hash tx),
                           pre @ [Call (TokenTransfer c to v), Returned (TokenTransfer c to v),
                                  Call (TxWait tx), Returned (TxWait tx)]))))"
  using assms
  by (simp add: sendEvmCashback_def enter_def bind_io_Inr bind_io_Inl extern_Inr extern_Inl
      catch_io_def returns_def lift_def extern_def split: sum.splits)

theorem decimals_failure_falls_back_to_18_witness:
  "token_decimals no_decimals_world (Contract 5) = Inl (Error ''rpc down'')
   \<and> parseUnits no_decimals_world (toString 1) 18 = Inr 1000000000000000000
   \<and> sendEvmCashback no_decimals_world stub_env ''0xpayer'' (Some ''0xtoken'') 1 =
       (Inr ''0xcafe'',
        [Call (SendEvmCashback ''0xpayer'' (Some ''0xtoken'') 1),
         Call (NewJsonRpcProvider ''https://sepolia.base.org''),
         Returned (NewJsonRpcProvider ''https://sepolia.base.org''),
         Call (NewWallet ''0xkey'' (Provider 3)), Returned (NewWallet ''0xkey'' (Provider 3)),
         Call (NewContract (Some ''0xtoken'') (Wallet 4)),
         Returned (NewContract (Some ''0xtoken'') (Wallet 4)),
         Call (TokenDecimals (Contract 5)),
         Threw (TokenDecimals (Contract 5)) (Error ''rpc down''),
         Call (TokenTransfer (Contract 5) ''0xpayer'' 1000000000000000000),
         Returned (TokenTransfer (Contract 5) ''0xpayer'' 1000000000000000000),
         Call (TxWait (Tx ''0xcafe'')), Returned (TxWait (Tx ''0xcafe''))])"
  (is "?A \<and> ?B \<and> ?C")
proof -
  have h1: "JsonRpcProvider_new no_decimals_world (EVM_RPC_URL stub_env) = Inr (Provider 3)"
    by (simp add: run_defs)
  have h2: "Wallet_new no_decimals_world (EVM_PRIVATE_KEY stub_env) (Provider 3)
      = Inr (Wallet 4)"
    by (simp add: run_defs)
  have h3: "Contract_new no_decimals_world (Some ''0xtoken'') (Wallet 4) = Inr (Contract 5)"
    by (simp add: run_defs)
  have h4: "?A" by (simp add: run_defs)
  have b: "?B" by (simp add: run_defs)
  have tr: "token_transfer no_decimals_world (Contract 5) ''0xpayer'' 1000000000000000000
      = Inr (Tx ''0xcafe'')"
    by (simp add: run_defs)
  have wt: "tx_wait no_decimals_world (Tx ''0xcafe'') = Inr ()"
    by (simp add: run_defs)
  have ev: "EVM_RPC_URL stub_env = ''https://sepolia.base.org''"
    "EVM_PRIVATE_KEY stub_env = ''0xkey''"
    by (simp_all add: run_defs)
  from decimals_failure_falls_back_to_18[OF h1 h2 h3 h4 refl, of "''0xpayer''" 1]
  have "?C" by (simp add: b tr wt ev)
  with h4 b show ?thesis by blast
qed

section \<open>Claims about the private keys\<close>



section \<open>Claims about \<^verbatim>\<open>GET /supported\<close>\<close>

text \<open>
  Claim C10. When \<^verbatim>\<open>SVM_PRIVATE_KEY\<close> is configured, every \<^verbatim>\<open>GET /supported\<close> begins by
  constructing a signer for \<^verbatim>\<open>solana-devnet\<close>, used for the fee payer only; an exception
  of that construction escapes the handler, which writes no 400 response. The handlers of
  \<^verbatim>\<open>POST /verify\<close> and \<^verbatim>\<open>POST /settle\<close>, in contrast, always respond.
\<close>

theorem supported_signer_failure_is_uncaught:
  assumes "SVM_PRIVATE_KEY penv \<noteq> []"
  shows "(\<exists>rest. snd (get_supported w penv) =
            Call (CreateSigner ''solana-devnet'' (SVM_PRIVATE_KEY penv)) # rest)
       \<and> (\<forall>e. createSigner w ''solana-devnet'' (SVM_PRIVATE_KEY penv) = Inl e \<longrightarrow>
            get_supported w penv =
              (Uncaught e,
               [Call (CreateSigner ''solana-devnet'' (SVM_PRIVATE_KEY penv)),
                Threw (CreateSigner ''solana-devnet'' (SVM_PRIVATE_KEY penv)) e]))
       \<and> (\<forall>s. createSigner w ''solana-devnet'' (SVM_PRIVATE_KEY penv) = Inr s \<longrightarrow>
            fst (get_supported w penv) =
               Responded (ok_json (SupportedBody
                ((if EVM_PRIVATE_KEY penv \<noteq> [] then
                    [\<lparr>kind_x402Version = 1, kind_scheme = ''exact'',
                      kind_network = ''base-sepolia'', extra = None\<rparr>]
                  else []) @
                 [\<lparr>kind_x402Version = 1, kind_scheme = ''exact'',
                   kind_network = ''solana-devnet'',
                   extra = Some \<lparr>feePayer =
                     (if isSvmSignerWallet w s then Some (signer_address w s) else None)\<rparr>\<rparr>]))))
       \<and> (\<exists>resp. fst (post_verify w penv req) = Responded resp)
       \<and> (\<exists>resp. fst (post_settle w penv req') = Responded resp)"
proof -
  have "\<exists>resp. fst (post_verify w penv req) = Responded resp"
    by (simp add: fst_post_verify split: sum.splits)
  moreover have "\<exists>resp. fst (post_settle w penv req') = Responded resp"
    by (simp add: fst_post_settle split: sum.splits)
  moreover have "\<exists>rest. snd (get_supported w penv) =
            Call (CreateSigner ''solana-devnet'' (SVM_PRIVATE_KEY penv)) # rest"
    using assms
    by (cases "createSigner w ''solana-devnet'' (SVM_PRIVATE_KEY penv)")
       (simp_all add: get_supported_def supported_kinds_def Let_def extern_Inl extern_Inr
          bind_io_Inl bind_io_Inr returns_def)
  moreover have "get_supported w penv =
              (Uncaught e,
               [Call (CreateSigner ''solana-devnet'' (SVM_PRIVATE_KEY penv)),
                Threw (CreateSigner ''solana-devnet'' (SVM_PRIVATE_KEY penv)) e])"
    if "createSigner w ''solana-devnet'' (SVM_PRIVATE_KEY penv) = Inl e" for e
    using assms that
    by (simp add: get_supported_def supported_kinds_def Let_def extern_Inl bind_io_Inl)
  moreover have "fst (get_supported w penv) =
               Responded (ok_json (SupportedBody
                ((if EVM_PRIVATE_KEY penv \<noteq> [] then
                    [\<lparr>kind_x402Version = 1, kind_scheme = ''exact'',
                      kind_network = ''base-sepolia'', extra = None\<rparr>]
                  else []) @
                 [\<lparr>kind_x402Version = 1, kind_scheme = ''exact'',
                   kind_network = ''solana-devnet'',
                   extra = Some \<lparr>feePayer =
                     (if isSvmSignerWallet w s then Some (signer_address w s) else None)\<rparr>\<rparr>])))"
    if "createSigner w ''solana-devnet'' (SVM_PRIVATE_KEY penv) = Inr s" for s
    using assms that
    by (simp add: get_supported_def supported_kinds_def Let_def extern_Inr bind_io_Inr
        returns_def)
  ultimately show ?thesis by blast
qed

theorem supported_signer_failure_is_uncaught_witness:
  "SVM_PRIVATE_KEY stub_env \<noteq> []
   \<and> get_supported no_signer_world stub_env =
       (Uncaught (Error ''bad key''),
        [Call (CreateSigner ''solana-devnet'' ''svmkey''),
         Threw (CreateSigner ''solana-devnet'' ''svmkey'') (Error ''bad key'')])"
  (is "?A \<and> ?B")
proof -
  have a: "?A" by (simp add: run_defs)
  have k: "SVM_PRIVATE_KEY stub_env = ''svmkey''" by (simp add: run_defs)
  have cs: "createSigner no_signer_world ''solana-devnet'' (SVM_PRIVATE_KEY stub_env)
      = Inl (Error ''bad key'')"
    by (simp add: run_defs)
  from supported_signer_failure_is_uncaught[OF a, of no_signer_world] cs k
  have "?B" by simp
  with a show ?thesis by blast
qed

end
